theory Spec2Isabelle
  imports Complex_Main
begin

section \<open>FastLink: node selection, player commands and track-end recovery\<close>

text \<open>
  A shallow embedding of \<^verbatim>\<open>index.js\<close>, \<^verbatim>\<open>src/events/event/trackEnd.js\<close> and
  \<^verbatim>\<open>src/events/track/trackException.js\<close>.

  The module-level variables \<^verbatim>\<open>Config\<close>, \<^verbatim>\<open>Nodes\<close>, \<^verbatim>\<open>Players\<close> and
  \<^verbatim>\<open>sessionIds\<close> become fields of one state record that every operation takes and
  returns. Two logs are added to the state: every HTTP call handed to the transport
  (\<^verbatim>\<open>utils.makeRequest\<close>) is appended to \<open>requests\<close>, every \<^verbatim>\<open>Event.emit\<close> to
  \<open>emitted\<close>. A \<^verbatim>\<open>throw\<close> and a read of a property of \<^verbatim>\<open>undefined\<close> are values
  of type \<open>error\<close>; an operation returns its outcome together with the state, so that
  what it mutated before it threw is kept. Console output is not modelled.
\<close>

subsection \<open>Data\<close>

datatype error =
    NoNodeConnected
  | PlayerAlreadyExists
  | QueueDisabled
  | NoGuildId
  | TypeError

record config =
  c_botId :: string
  c_shards :: nat
  c_queue :: bool
  c_debug :: bool

text \<open>
  A JavaScript number, as far as node selection needs it: the two infinities and NaN
  that a division by zero produces, and the finite values. Finite values are exact
  rationals: the rounding of IEEE doubles is not modelled.
\<close>

datatype jsnum = NaN | NegInf | Fin rat | PosInf

text \<open>
  The load snapshot of a node. Every node of the model carries one: a node that is
  connected but has not received its first \<^verbatim>\<open>stats\<close> frame is outside the model.
\<close>

record stats =
  systemLoad :: rat
  cores :: nat

text \<open>The value \<^verbatim>\<open>null\<close> that \<^verbatim>\<open>destroy\<close> stores in a node's player slot.\<close>

datatype slot = SlotNull

record node =
  hostname :: string
  password :: string
  secure :: bool
  port :: nat
  n_connected :: bool
  n_sessionId :: "string option"
  n_stats :: stats
  n_players :: "(string \<rightharpoonup> slot) option"

text \<open>
  A property that holds an encoded track: absent (\<^verbatim>\<open>undefined\<close>), \<^verbatim>\<open>null\<close>, or a
  string.
\<close>

datatype track_field = Undefined | Null | Track string

record player =
  p_connected :: bool
  playing :: bool
  paused :: bool
  volume :: "nat option"
  p_node :: string
  queue :: "string list option"
  track :: track_field

record voice =
  token :: string
  endpoint :: string
  v_sessionId :: string

record body =
  encodedTrack :: track_field
  encodedTracks :: "string list option"
  b_paused :: "bool option"
  b_voice :: "voice option"

datatype http_method = GET | PATCH | DELETE | POST

record request =
  url :: string
  authorization :: string
  r_port :: nat
  r_method :: http_method
  r_body :: "body option"

record event_data =
  ev_node :: "node option"
  ev_guildId :: string
  ev_player :: player
  ev_track :: string

datatype emitted = Emit string event_data | EmitDebug string

text \<open>
  \<^verbatim>\<open>Nodes\<close> is an object keyed by hostname. It is an association list in insertion
  order, since \<^verbatim>\<open>Object.values\<close> enumerates string keys in that order (hostnames are
  taken not to be canonical array indices, which JavaScript would enumerate first).
\<close>

type_synonym nodes = "(string \<times> node) list"
type_synonym players = "string \<rightharpoonup> player"

record state =
  Config :: config
  Nodes :: nodes
  Players :: players
  sessionIds :: "string \<rightharpoonup> string"
  requests :: "request list"
  emitted :: "emitted list"

text \<open>The receiver \<^verbatim>\<open>this\<close> of the \<^verbatim>\<open>Player\<close> class.\<close>

record this =
  this_guildId :: string
  this_node :: "string option"

subsection \<open>Node selection\<close>

definition Object_values :: "nodes \<Rightarrow> node list" where
  "Object_values ns = map snd ns"

text \<open>
  Division of two finite numbers, the divisor not negative zero: a zero divisor gives
  NaN or an infinity.
\<close>

definition js_div :: "rat \<Rightarrow> rat \<Rightarrow> jsnum" where
  "js_div a b =
     (if b = 0 then (if a = 0 then NaN else if 0 < a then PosInf else NegInf)
      else Fin (a / b))"

text \<open>Multiplication by a finite number.\<close>

fun js_mul :: "jsnum \<Rightarrow> rat \<Rightarrow> jsnum" where
  "js_mul (Fin a) b = Fin (a * b)"
| "js_mul PosInf b = (if b = 0 then NaN else if 0 < b then PosInf else NegInf)"
| "js_mul NegInf b = (if b = 0 then NaN else if 0 < b then NegInf else PosInf)"
| "js_mul NaN b = NaN"

fun js_sub :: "jsnum \<Rightarrow> jsnum \<Rightarrow> jsnum" where
  "js_sub (Fin a) (Fin b) = Fin (a - b)"
| "js_sub (Fin a) PosInf = NegInf"
| "js_sub (Fin a) NegInf = PosInf"
| "js_sub (Fin a) NaN = NaN"
| "js_sub PosInf (Fin b) = PosInf"
| "js_sub PosInf NegInf = PosInf"
| "js_sub PosInf PosInf = NaN"
| "js_sub PosInf NaN = NaN"
| "js_sub NegInf (Fin b) = NegInf"
| "js_sub NegInf PosInf = NegInf"
| "js_sub NegInf NegInf = NaN"
| "js_sub NegInf NaN = NaN"
| "js_sub NaN b = NaN"

text \<open>\<^verbatim>\<open>(a.stats.systemLoad / a.stats.cores) * 100\<close>\<close>

definition score :: "node \<Rightarrow> jsnum" where
  "score a = js_mul (js_div (systemLoad (n_stats a)) (of_nat (cores (n_stats a)))) 100"

definition comparator :: "node \<Rightarrow> node \<Rightarrow> jsnum" where
  "comparator a b = js_sub (score a) (score b)"

text \<open>
  \<^verbatim>\<open>Array.prototype.sort\<close> puts \<open>b\<close> before \<open>a\<close> when the comparator's value is
  greater than zero, and keeps the order of two elements otherwise (also at NaN): the
  sort is stable. It is modelled as insertion from the right, each element moving
  behind exactly the elements it compares greater than. Where the comparator is a
  consistent ordering every stable sort returns this list; where NaN breaks the
  ordering the result of the JavaScript sort depends on the engine, and no property
  below is about that case.
\<close>

fun js_positive :: "jsnum \<Rightarrow> bool" where
  "js_positive PosInf = True"
| "js_positive (Fin r) = (0 < r)"
| "js_positive _ = False"

fun js_insert :: "node \<Rightarrow> node list \<Rightarrow> node list" where
  "js_insert a [] = [a]"
| "js_insert a (b # bs) =
     (if js_positive (comparator a b) then b # js_insert a bs else a # b # bs)"

fun js_sort :: "node list \<Rightarrow> node list" where
  "js_sort [] = []"
| "js_sort (a # as) = js_insert a (js_sort as)"

text \<open>
  \<^verbatim>\<open>nodes.sort(...)[0]\<close> is read only when \<open>nodes\<close> is not empty, and the sorted
  array has the elements of \<open>nodes\<close>, so that index 0 is in range.
\<close>

definition getRecommendedNode :: "nodes \<Rightarrow> error + node" where
  "getRecommendedNode ns =
     (let nodes = filter n_connected (Object_values ns) in
      if length nodes = 0 then Inl NoNodeConnected
      else Inr (js_sort nodes ! 0))"


subsection \<open>The Player class\<close>

text \<open>
  \<^verbatim>\<open>Nodes[this.node]\<close>: a receiver whose \<^verbatim>\<open>node\<close> is \<^verbatim>\<open>undefined\<close> reads the
  key \<^verbatim>\<open>"undefined"\<close>.
\<close>

definition Nodes_at :: "nodes \<Rightarrow> string option \<Rightarrow> node option" where
  "Nodes_at ns k = map_of ns (case k of None \<Rightarrow> ''undefined'' | Some h \<Rightarrow> h)"

text \<open>Assignment to a property of an entry that \<^verbatim>\<open>Nodes\<close> already has.\<close>

definition Nodes_put :: "nodes \<Rightarrow> string option \<Rightarrow> node \<Rightarrow> nodes" where
  "Nodes_put ns k n =
     map (\<lambda>(k', n'). if k' = (case k of None \<Rightarrow> ''undefined'' | Some h \<Rightarrow> h) then (k', n) else (k', n')) ns"

text \<open>A session identifier inside a template string; \<^verbatim>\<open>null\<close> prints as \<^verbatim>\<open>null\<close>.\<close>

definition template :: "string option \<Rightarrow> string" where
  "template v = (case v of None \<Rightarrow> ''null'' | Some x \<Rightarrow> x)"

text \<open>\<^verbatim>\<open>/sessions/${Nodes[node].sessionId}/players/${guildId}\<close>\<close>

definition players_path :: "node \<Rightarrow> string \<Rightarrow> string" where
  "players_path n g = ''/sessions/'' @ template (n_sessionId n) @ ''/players/'' @ g"

text \<open>\<^verbatim>\<open>http${secure ? 's' : ''}://${hostname}\<close>\<close>

definition base_url :: "node \<Rightarrow> string" where
  "base_url n = ''http'' @ (if secure n then ''s'' else []) @ ''://'' @ hostname n"

fun truthy :: "track_field \<Rightarrow> bool" where
  "truthy (Track x) = (x \<noteq> [])"
| "truthy _ = False"

fun track_string :: "track_field \<Rightarrow> string" where
  "track_string (Track x) = x"
| "track_string _ = []"

text \<open>\<^verbatim>\<open>queue[0]\<close>, which is \<^verbatim>\<open>undefined\<close> on an empty array.\<close>

fun first :: "string list \<Rightarrow> track_field" where
  "first [] = Undefined"
| "first (x # _) = Track x"

text \<open>\<^verbatim>\<open>Array.prototype.shift\<close>: removes the first element, and does nothing to an empty array.\<close>

fun shift :: "'a list \<Rightarrow> 'a list" where
  "shift [] = []"
| "shift (_ # xs) = xs"

definition no_body :: body where
  "no_body = \<lparr>encodedTrack = Undefined, encodedTracks = None, b_paused = None, b_voice = None\<rparr>"

text \<open>The request body \<^verbatim>\<open>{ encodedTrack: x }\<close>.\<close>

definition track_body :: "track_field \<Rightarrow> body" where
  "track_body x = no_body\<lparr>encodedTrack := x\<rparr>"

definition Player :: "state \<Rightarrow> string \<Rightarrow> error + this" where
  "Player s guildId =
     (if guildId = [] then Inl NoGuildId
      else Inr \<lparr>this_guildId = guildId, this_node = map_option p_node (Players s guildId)\<rparr>)"

definition createPlayer :: "state \<Rightarrow> this \<Rightarrow> (error + unit) \<times> state \<times> this" where
  "createPlayer s t =
     (if Players s (this_guildId t) \<noteq> None then (Inl PlayerAlreadyExists, s, t)
      else case getRecommendedNode (Nodes s) of
             Inl e \<Rightarrow> (Inl e, s, t)
           | Inr n \<Rightarrow>
               (let p = \<lparr>p_connected = False, playing = False, paused = False, volume = None,
                         p_node = hostname n,
                         queue = (if c_queue (Config s) then Some [] else None),
                         track = (if c_queue (Config s) then Undefined else Null)\<rparr>
                in (Inr (), s\<lparr>Players := (Players s)(this_guildId t \<mapsto> p)\<rparr>,
                    t\<lparr>this_node := Some (hostname n)\<rparr>)))"

definition playerCreated :: "state \<Rightarrow> this \<Rightarrow> bool" where
  "playerCreated s t = (Players s (this_guildId t) \<noteq> None)"

text \<open>
  \<^verbatim>\<open>Player.makeRequest\<close> hands one call to the transport, built from the entry of the
  receiver's node.
\<close>

definition makeRequest :: "state \<Rightarrow> this \<Rightarrow> string \<Rightarrow> body option \<Rightarrow> http_method \<Rightarrow> (error + unit) \<times> state" where
  "makeRequest s t path b m =
     (case Nodes_at (Nodes s) (this_node t) of
        None \<Rightarrow> (Inl TypeError, s)
      | Some n \<Rightarrow>
          (Inr (), s\<lparr>requests := requests s @
             [\<lparr>url = base_url n @ ''/v4'' @ path, authorization = password n,
               r_port = port n, r_method = m, r_body = b\<rparr>]\<rparr>))"

text \<open>
  \<^verbatim>\<open>update\<close>, in the three blocks of its body. The first block handles
  \<^verbatim>\<open>body.encodedTrack\<close>; its result \<open>True\<close> is the \<^verbatim>\<open>return\<close> taken when the
  pushed track is not the only element of the queue.
\<close>

definition update_encodedTrack :: "state \<Rightarrow> string \<Rightarrow> body \<Rightarrow> (error + bool) \<times> state" where
  "update_encodedTrack s g b =
     (if truthy (encodedTrack b) \<and> c_queue (Config s) then
        (case Players s g of
           None \<Rightarrow> (Inl TypeError, s)
         | Some p \<Rightarrow>
             (case queue p of
                None \<Rightarrow> (Inl TypeError, s)
              | Some q \<Rightarrow>
                  (Inr (length (q @ [track_string (encodedTrack b)]) \<noteq> 1),
                   s\<lparr>Players := (Players s)(g \<mapsto> p\<lparr>queue := Some (q @ [track_string (encodedTrack b)])\<rparr>)\<rparr>)))
      else if encodedTrack b \<noteq> Undefined then
        (case Players s g of
           None \<Rightarrow> (Inl TypeError, s)
         | Some p \<Rightarrow> (Inr False, s\<lparr>Players := (Players s)(g \<mapsto> p\<lparr>queue := Some []\<rparr>)\<rparr>))
      else (Inr False, s))"

text \<open>The block for \<^verbatim>\<open>body.encodedTracks\<close>, which always ends in \<^verbatim>\<open>return\<close>.\<close>

definition update_encodedTracks :: "state \<Rightarrow> this \<Rightarrow> string list \<Rightarrow> (error + unit) \<times> state" where
  "update_encodedTracks s t ts =
     (if \<not> c_queue (Config s) then (Inl QueueDisabled, s)
      else case Players s (this_guildId t) of
        None \<Rightarrow> (Inl TypeError, s)
      | Some p \<Rightarrow>
          (case queue p of
             None \<Rightarrow> (Inl TypeError, s)
           | Some q \<Rightarrow>
               if length q = 0 then
                 (let s1 = s\<lparr>Players := (Players s)(this_guildId t \<mapsto> p\<lparr>queue := Some ts\<rparr>)\<rparr> in
                  case Nodes_at (Nodes s1) (this_node t) of
                    None \<Rightarrow> (Inl TypeError, s1)
                  | Some n \<Rightarrow>
                      (Inr (), snd (makeRequest s1 t (players_path n (this_guildId t))
                                      (Some (track_body (first ts))) PATCH)))
               else (Inr (), s\<lparr>Players := (Players s)(this_guildId t \<mapsto> p\<lparr>queue := Some (q @ ts)\<rparr>)\<rparr>)))"

text \<open>The block for \<^verbatim>\<open>body.paused\<close>.\<close>

definition update_paused :: "state \<Rightarrow> string \<Rightarrow> body \<Rightarrow> (error + unit) \<times> state" where
  "update_paused s g b =
     (case b_paused b of
        None \<Rightarrow> (Inr (), s)
      | Some v \<Rightarrow>
          (case Players s g of
             None \<Rightarrow> (Inl TypeError, s)
           | Some p \<Rightarrow> (Inr (), s\<lparr>Players := (Players s)(g \<mapsto> p\<lparr>playing := \<not> v, paused := v\<rparr>)\<rparr>)))"

text \<open>
  The whole of \<^verbatim>\<open>update\<close>; its last step is the PATCH that carries the body as it
  was passed.
\<close>

definition update :: "state \<Rightarrow> this \<Rightarrow> body \<Rightarrow> bool option \<Rightarrow> (error + unit) \<times> state" where
  "update s t b noReplace =
     (case update_encodedTrack s (this_guildId t) b of
        (Inl e, s1) \<Rightarrow> (Inl e, s1)
      | (Inr returned, s1) \<Rightarrow>
          if returned then (Inr (), s1)
          else
            (case encodedTracks b of
               Some ts \<Rightarrow> update_encodedTracks s1 t ts
             | None \<Rightarrow>
                 (case update_paused s1 (this_guildId t) b of
                    (Inl e, s2) \<Rightarrow> (Inl e, s2)
                  | (Inr _, s2) \<Rightarrow>
                      (case Nodes_at (Nodes s2) (this_node t) of
                         None \<Rightarrow> (Inl TypeError, s2)
                       | Some n \<Rightarrow>
                           makeRequest s2 t
                             (players_path n (this_guildId t) @ ''?noReplace=''
                                @ (if noReplace \<noteq> Some True then ''false'' else ''true''))
                             (Some b) PATCH))))"

definition destroy :: "state \<Rightarrow> this \<Rightarrow> (error + unit) \<times> state" where
  "destroy s t =
     (case Nodes_at (Nodes s) (this_node t) of
        None \<Rightarrow> (Inl TypeError, s)
      | Some n \<Rightarrow>
          (case n_players n of
             None \<Rightarrow> (Inl TypeError, s)
           | Some slots \<Rightarrow>
               (let s1 = s\<lparr>Nodes := Nodes_put (Nodes s) (this_node t)
                                      (n\<lparr>n_players := Some (slots(this_guildId t \<mapsto> SlotNull))\<rparr>)\<rparr> in
                case Nodes_at (Nodes s1) (this_node t) of
                  None \<Rightarrow> (Inl TypeError, s1)
                | Some n1 \<Rightarrow>
                    (Inr (), snd (makeRequest s1 t (players_path n1 (this_guildId t)) None DELETE)))))"

record skip_result =
  skipped :: bool
  sk_queue :: "string list"
  sk_error :: "string option"

definition skipTrack :: "state \<Rightarrow> this \<Rightarrow> (error + skip_result) \<times> state" where
  "skipTrack s t =
     (if \<not> c_queue (Config s) then (Inl QueueDisabled, s)
      else case Players s (this_guildId t) of
        None \<Rightarrow> (Inl TypeError, s)
      | Some p \<Rightarrow>
          (case queue p of
             None \<Rightarrow> (Inl TypeError, s)
           | Some q \<Rightarrow>
               if length q < 1 then
                 (Inr \<lparr>skipped = False, sk_queue = [], sk_error = Some ''No tracks in queue.''\<rparr>, s)
               else
                 (let s1 = s\<lparr>Players := (Players s)(this_guildId t \<mapsto> p\<lparr>queue := Some (shift q)\<rparr>)\<rparr> in
                  case Nodes_at (Nodes s1) (this_node t) of
                    None \<Rightarrow> (Inl TypeError, s1)
                  | Some n \<Rightarrow>
                      (Inr \<lparr>skipped = True, sk_queue = shift q, sk_error = None\<rparr>,
                       snd (makeRequest s1 t (players_path n (this_guildId t))
                              (Some (track_body (first (shift q)))) PATCH)))))"

subsection \<open>Voice correlation\<close>

record raw_payload =
  guild_id :: string
  d_token :: string
  d_endpoint :: string
  session_id :: string
  member_user_id :: string

record raw =
  raw_t :: string
  raw_d :: raw_payload

text \<open>
  \<^verbatim>\<open>!sessionIds[guild_id]\<close> holds for a missing entry and for the empty string.
  \<^verbatim>\<open>player.update\<close> is not awaited, so a rejection of its promise does not
  stop \<^verbatim>\<open>handleRaw\<close>.
\<close>

definition handleRaw :: "state \<Rightarrow> raw \<Rightarrow> (error + unit) \<times> state" where
  "handleRaw s data =
     (if raw_t data = ''VOICE_SERVER_UPDATE'' then
        (case sessionIds s (guild_id (raw_d data)) of
           None \<Rightarrow> (Inr (), s)
         | Some sid \<Rightarrow>
             if sid = [] then (Inr (), s)
             else
               (case Player s (guild_id (raw_d data)) of
                  Inl e \<Rightarrow> (Inl e, s)
                | Inr player \<Rightarrow>
                    if \<not> playerCreated s player then (Inr (), s)
                    else
                      (let s1 = snd (update s player
                                       (no_body\<lparr>b_voice := Some \<lparr>token = d_token (raw_d data),
                                                                  endpoint = d_endpoint (raw_d data),
                                                                  v_sessionId = sid\<rparr>\<rparr>) None)
                       in (Inr (), s1\<lparr>sessionIds := (sessionIds s1)(guild_id (raw_d data) := None)\<rparr>))))
      else if raw_t data = ''VOICE_STATE_UPDATE'' then
        (if member_user_id (raw_d data) = c_botId (Config s)
         then (Inr (), s\<lparr>sessionIds := (sessionIds s)(guild_id (raw_d data) \<mapsto> session_id (raw_d data))\<rparr>)
         else (Inr (), s))
      else (Inr (), s))"

subsection \<open>Track-end and track-exception handlers\<close>

record payload =
  guildId :: string
  reason :: "string option"
  pl_track :: string

text \<open>
  What a handler did to its arguments: the \<^verbatim>\<open>Players\<close> object after the in-place
  mutation of the player, the calls handed to the transport, and the events emitted.
\<close>

record effects =
  e_Players :: players
  e_requests :: "request list"
  e_emitted :: "emitted list"

text \<open>
  The tail both handlers share: \<^verbatim>\<open>playing = false\<close>, \<^verbatim>\<open>volume = null\<close>, the
  emission under the handler's event name, and \<^verbatim>\<open>return Players\<close>.
\<close>

definition finish :: "string \<Rightarrow> emitted list \<Rightarrow> payload \<Rightarrow> string \<Rightarrow> nodes \<Rightarrow> players \<Rightarrow> player
    \<Rightarrow> (error + players option) \<times> effects" where
  "finish name before pl nd ns ps p =
     (let p1 = p\<lparr>playing := False, volume := None\<rparr>; ps1 = ps(guildId pl \<mapsto> p1) in
      (Inr (Some ps1),
       \<lparr>e_Players = ps1, e_requests = [],
        e_emitted = before @ [Emit name \<lparr>ev_node = map_of ns nd, ev_guildId = guildId pl,
                                         ev_player = p1, ev_track = pl_track pl\<rparr>]\<rparr>))"

definition trackEnd :: "payload \<Rightarrow> string \<Rightarrow> config \<Rightarrow> nodes \<Rightarrow> players
    \<Rightarrow> (error + players option) \<times> effects" where
  "trackEnd pl nd cfg ns ps =
     (case ps (guildId pl) of
        None \<Rightarrow> (Inr None, \<lparr>e_Players = ps, e_requests = [], e_emitted = []\<rparr>)
      | Some p \<Rightarrow>
          if c_queue cfg \<and> reason pl \<noteq> Some ''replaced'' then
            (case queue p of
               None \<Rightarrow> (Inl TypeError, \<lparr>e_Players = ps, e_requests = [], e_emitted = []\<rparr>)
             | Some q \<Rightarrow>
                 (let p1 = p\<lparr>queue := Some (shift q)\<rparr>; ps1 = ps(guildId pl \<mapsto> p1) in
                  if length (shift q) > 0 then
                    (case map_of ns nd of
                       None \<Rightarrow> (Inl TypeError, \<lparr>e_Players = ps1, e_requests = [], e_emitted = []\<rparr>)
                     | Some n \<Rightarrow>
                         (Inr (Some ps1),
                          \<lparr>e_Players = ps1,
                           e_requests = [\<lparr>url = base_url n @ ''/v4'' @ players_path n (guildId pl),
                                           authorization = password n, r_port = port n,
                                           r_method = PATCH,
                                           r_body = Some (track_body (first (shift q)))\<rparr>],
                           e_emitted = []\<rparr>))
                  else finish ''trackEnd'' [] pl nd ns ps p1))
          else finish ''trackEnd'' [] pl nd ns ps (p\<lparr>track := Null\<rparr>))"

text \<open>
  Modelled from the spec: \<^verbatim>\<open>utils.makeNodeRequest\<close> (\<^verbatim>\<open>src/utils.js\<close> is not among
  the sources). By the specification a handler's REST call goes to the node's base
  address with the node's credentials, as the call in \<^verbatim>\<open>trackEnd\<close> is written out.
\<close>

definition makeNodeRequest :: "node \<Rightarrow> string \<Rightarrow> body option \<Rightarrow> http_method \<Rightarrow> request" where
  "makeNodeRequest n path b m =
     \<lparr>url = base_url n @ path, authorization = password n, r_port = port n,
      r_method = m, r_body = b\<rparr>"

definition debug_message :: "string \<Rightarrow> string" where
  "debug_message nd = ''[FastLink] '' @ nd @ '' has received a track exception''"

definition trackException :: "payload \<Rightarrow> string \<Rightarrow> config \<Rightarrow> nodes \<Rightarrow> players
    \<Rightarrow> (error + players option) \<times> effects" where
  "trackException pl nd cfg ns ps =
     (case ps (guildId pl) of
        None \<Rightarrow> (Inr None, \<lparr>e_Players = ps, e_requests = [], e_emitted = [EmitDebug (debug_message nd)]\<rparr>)
      | Some p \<Rightarrow>
          if c_queue cfg then
            (case queue p of
               None \<Rightarrow> (Inl TypeError,
                         \<lparr>e_Players = ps, e_requests = [], e_emitted = [EmitDebug (debug_message nd)]\<rparr>)
             | Some q \<Rightarrow>
                 (let p1 = p\<lparr>queue := Some (shift q)\<rparr>; ps1 = ps(guildId pl \<mapsto> p1) in
                  if length (shift q) > 0 then
                    (case map_of ns nd of
                       None \<Rightarrow> (Inl TypeError,
                                 \<lparr>e_Players = ps1, e_requests = [],
                                  e_emitted = [EmitDebug (debug_message nd)]\<rparr>)
                     | Some n \<Rightarrow>
                         (Inr (Some ps1),
                          \<lparr>e_Players = ps1,
                           e_requests = [makeNodeRequest n (''/v4'' @ players_path n (guildId pl))
                                           (Some (track_body (first (shift q)))) PATCH],
                           e_emitted = [EmitDebug (debug_message nd)]\<rparr>))
                  else finish ''trackException'' [EmitDebug (debug_message nd)] pl nd ns ps p1))
          else finish ''trackException'' [EmitDebug (debug_message nd)] pl nd ns ps (p\<lparr>track := Null\<rparr>))"

subsection \<open>Notions the properties are stated with\<close>

text \<open>
  \<^verbatim>\<open>connectNodes\<close> stores every node under its own hostname
  (\<^verbatim>\<open>Nodes[node.hostname] = {...node}\<close>), and an object has each key once.
\<close>

definition keyed_by_hostname :: "nodes \<Rightarrow> bool" where
  "keyed_by_hostname ns = (distinct (map fst ns) \<and> list_all (\<lambda>(k, n). hostname n = k) ns)"

text \<open>The queue of the player of guild \<open>g\<close>, if there is such a player and it has one.\<close>

definition queue_of :: "players \<Rightarrow> string \<Rightarrow> string list option" where
  "queue_of ps g = (case ps g of None \<Rightarrow> None | Some p \<Rightarrow> queue p)"

text \<open>A PATCH against node \<open>n\<close>, as the transport receives it.\<close>

definition patch :: "node \<Rightarrow> string \<Rightarrow> body \<Rightarrow> request" where
  "patch n path b = \<lparr>url = base_url n @ ''/v4'' @ path, authorization = password n,
      r_port = port n, r_method = PATCH, r_body = Some b\<rparr>"

text \<open>The two gateway notifications \<^verbatim>\<open>handleRaw\<close> reacts to, and the body it builds.\<close>

definition voice_state :: "string \<Rightarrow> string \<Rightarrow> string \<Rightarrow> raw" where
  "voice_state g sid user =
     \<lparr>raw_t = ''VOICE_STATE_UPDATE'',
      raw_d = \<lparr>guild_id = g, d_token = [], d_endpoint = [], session_id = sid, member_user_id = user\<rparr>\<rparr>"

definition voice_server :: "string \<Rightarrow> string \<Rightarrow> string \<Rightarrow> raw" where
  "voice_server g tok ep =
     \<lparr>raw_t = ''VOICE_SERVER_UPDATE'',
      raw_d = \<lparr>guild_id = g, d_token = tok, d_endpoint = ep, session_id = [], member_user_id = []\<rparr>\<rparr>"

definition voice_body :: "string \<Rightarrow> string \<Rightarrow> string \<Rightarrow> body" where
  "voice_body tok ep sid = no_body\<lparr>b_voice := Some \<lparr>token = tok, endpoint = ep, v_sessionId = sid\<rparr>\<rparr>"

subsection \<open>A concrete registry\<close>

text \<open>
  Four nodes: \<open>n1\<close> is disconnected and idle; \<open>n2\<close> and \<open>n3\<close> are connected and
  carry the same load of 12.5 per cent per core; \<open>n4\<close> is connected and busier.
  Every node has an object of player slots, which is empty.
\<close>

definition ex_node :: "string \<Rightarrow> bool \<Rightarrow> rat \<Rightarrow> nat \<Rightarrow> node" where
  "ex_node h c l k =
     \<lparr>hostname = h, password = ''pw'', secure = False, port = 2333, n_connected = c,
      n_sessionId = (if c then Some ''sid'' else None),
      n_stats = \<lparr>systemLoad = l, cores = k\<rparr>, n_players = Some Map.empty\<rparr>"

definition ex_nodes :: nodes where
  "ex_nodes = [(''n1'', ex_node ''n1'' False 0 8), (''n2'', ex_node ''n2'' True (1 / 2) 4),
               (''n3'', ex_node ''n3'' True (1 / 4) 2), (''n4'', ex_node ''n4'' True (9 / 10) 2)]"

definition ex_config :: "bool \<Rightarrow> config" where
  "ex_config q = \<lparr>c_botId = ''bot'', c_shards = 1, c_queue = q, c_debug = False\<rparr>"

definition ex_state :: "bool \<Rightarrow> state" where
  "ex_state q = \<lparr>Config = ex_config q, Nodes = ex_nodes, Players = Map.empty,
                 sessionIds = Map.empty, requests = [], emitted = []\<rparr>"

definition ex_player :: "string list \<Rightarrow> player" where
  "ex_player q = \<lparr>p_connected = True, playing = True, paused = False, volume = Some 100,
                  p_node = ''n2'', queue = Some q, track = Undefined\<rparr>"

definition ex_payload :: "string \<Rightarrow> payload" where
  "ex_payload r = \<lparr>guildId = ''g1'', reason = Some r, pl_track = ''A''\<rparr>"

text \<open>
  The registry with a player of guild \<open>g1\<close> on node \<open>n2\<close> that has queue \<open>q\<close>, and
  the steps of the single-track scenario on the concrete registry: the player created,
  then \<open>update\<close> called with track \<open>A\<close>.
\<close>

definition ex_playing :: "string list \<Rightarrow> state" where
  "ex_playing q = (ex_state True)\<lparr>Players := [''g1'' \<mapsto> ex_player q]\<rparr>"

definition ex_created :: "bool \<Rightarrow> (error + unit) \<times> state \<times> this" where
  "ex_created q = createPlayer (ex_state q) \<lparr>this_guildId = ''g1'', this_node = None\<rparr>"


definition ex_destroyed :: "bool \<Rightarrow> (error + unit) \<times> state" where
  "ex_destroyed q = destroy (fst (snd (ex_created q))) (snd (snd (ex_created q)))"

subsection \<open>Properties of node selection\<close>



lemma js_insert_not_Nil: "js_insert a bs \<noteq> []"
  by (cases bs) simp_all

lemma js_sort_Nil_iff: "js_sort as = [] \<longleftrightarrow> as = []"
  by (cases as) (simp_all add: js_insert_not_Nil)




lemma set_js_insert: "set (js_insert a bs) = insert a (set bs)"
  by (induction bs) auto

lemma set_js_sort: "set (js_sort as) = set as"
  by (induction as) (simp_all add: set_js_insert)

lemma getRecommendedNode_in_registry:
  assumes "getRecommendedNode ns = Inr n"
  shows "n \<in> set (Object_values ns) \<and> n_connected n"
proof -
  let ?nodes = "filter n_connected (Object_values ns)"
  from assms have ne: "?nodes \<noteq> []" and n: "n = js_sort ?nodes ! 0"
    by (auto simp add: getRecommendedNode_def Let_def split: if_splits)
  from ne have "0 < length (js_sort ?nodes)"
    by (simp add: js_sort_Nil_iff)
  then have "js_sort ?nodes ! 0 \<in> set (js_sort ?nodes)"
    by (rule nth_mem)
  with n show ?thesis by (simp add: set_js_sort)
qed

lemma getRecommendedNode_registered:
  assumes "keyed_by_hostname ns" and "getRecommendedNode ns = Inr n"
  shows "map_of ns (hostname n) = Some n"
proof -
  from getRecommendedNode_in_registry [OF assms(2)] obtain k where kn: "(k, n) \<in> set ns"
    by (auto simp add: Object_values_def)
  with assms(1) have "hostname n = k"
    by (auto simp add: keyed_by_hostname_def list_all_iff)
  with kn assms(1) show ?thesis
    by (simp add: keyed_by_hostname_def)
qed

subsection \<open>Facts about the concrete registry\<close>

lemma ex_selection: "getRecommendedNode ex_nodes = Inr (ex_node ''n2'' True (1 / 2) 4)"
  by (simp add: getRecommendedNode_def ex_nodes_def ex_node_def Object_values_def
      comparator_def score_def js_div_def)

lemma ex_keyed: "keyed_by_hostname ex_nodes"
  by (simp add: keyed_by_hostname_def ex_nodes_def ex_node_def)

lemma ex_lookup: "map_of ex_nodes ''n2'' = Some (ex_node ''n2'' True (1 / 2) 4)"
  by (simp add: ex_nodes_def)

lemma ex_hostname: "hostname (ex_node h c l k) = h"
  by (simp add: ex_node_def)

lemma map_of_Nodes_put:
  "map_of ns k = Some n0 \<Longrightarrow> map_of (Nodes_put ns (Some k) n) k = Some n"
  by (induction ns) (auto simp add: Nodes_put_def split: if_splits)

lemma ex_created_eq:
  "ex_created q = (Inr (),
     (ex_state q)\<lparr>Players := [''g1'' \<mapsto>
        \<lparr>p_connected = False, playing = False, paused = False, volume = None, p_node = ''n2'',
         queue = (if q then Some [] else None), track = (if q then Undefined else Null)\<rparr>]\<rparr>,
     \<lparr>this_guildId = ''g1'', this_node = Some ''n2''\<rparr>)"
  by (simp add: ex_created_def createPlayer_def ex_state_def ex_config_def ex_selection ex_hostname)

lemma ex_playing_simps:
  "Config (ex_playing q) = ex_config True"
  "Nodes (ex_playing q) = ex_nodes"
  "Players (ex_playing q) = [''g1'' \<mapsto> ex_player q]"
  "sessionIds (ex_playing q) = Map.empty"
  "requests (ex_playing q) = []"
  by (simp_all add: ex_playing_def ex_state_def)

subsection \<open>The selected node\<close>




subsection \<open>The queue scenario\<close>

text \<open>
  C2. Queueing enabled, no player yet for guild \<open>g\<close>, and \<open>n\<close> the node that selection
  returns. Creating the player and calling \<open>update\<close> with track \<open>A\<close> and then with track
  \<open>B\<close> hands exactly one request to the transport, the PATCH carrying \<open>A\<close> (the second
  call adds none), and leaves the queue \<open>[A, B]\<close>. A \<open>TrackEndEvent\<close> with reason
  \<open>finished\<close> then issues exactly one PATCH, carrying \<open>B\<close>, and leaves the queue \<open>[B]\<close>.
\<close>

theorem queue_scenario:
  assumes q: "c_queue (Config s)" and g: "g \<noteq> []" and fresh: "Players s g = None"
    and keyed: "keyed_by_hostname (Nodes s)"
    and sel: "getRecommendedNode (Nodes s) = Inr n"
  shows "\<exists>t0 s1 t s2 s3 ps.
      Player s g = Inr t0 \<and> createPlayer s t0 = (Inr (), s1, t)
    \<and> update s1 t (track_body (Track ''A'')) None = (Inr (), s2)
    \<and> requests s2 = requests s @ [patch n (players_path n g @ ''?noReplace=false'') (track_body (Track ''A''))]
    \<and> update s2 t (track_body (Track ''B'')) None = (Inr (), s3)
    \<and> requests s3 = requests s2
    \<and> queue_of (Players s3) g = Some [''A'', ''B'']
    \<and> trackEnd \<lparr>guildId = g, reason = Some ''finished'', pl_track = ''A''\<rparr> (hostname n)
         (Config s3) (Nodes s3) (Players s3)
       = (Inr (Some ps),
          \<lparr>e_Players = ps, e_requests = [patch n (players_path n g) (track_body (Track ''B''))],
           e_emitted = []\<rparr>)
    \<and> queue_of ps g = Some [''B'']"
proof -
  note reg = getRecommendedNode_registered [OF keyed sel]
  show ?thesis
    using q g fresh sel reg
    by (simp add: Player_def createPlayer_def update_def update_encodedTrack_def update_paused_def
        makeRequest_def Nodes_at_def track_body_def no_body_def trackEnd_def patch_def queue_of_def
        Let_def)
qed

text \<open>The scenario on the concrete registry, for guild \<open>g1\<close>.\<close>

theorem queue_scenario_witness:
  "\<exists>s1 t s2 s3 ps.
      createPlayer (ex_state True) \<lparr>this_guildId = ''g1'', this_node = None\<rparr> = (Inr (), s1, t)
    \<and> update s1 t (track_body (Track ''A'')) None = (Inr (), s2)
    \<and> update s2 t (track_body (Track ''B'')) None = (Inr (), s3)
    \<and> length (requests s3) = 1
    \<and> queue_of (Players s3) ''g1'' = Some [''A'', ''B'']
    \<and> trackEnd (ex_payload ''finished'') ''n2'' (Config s3) (Nodes s3) (Players s3)
       = (Inr (Some ps),
          \<lparr>e_Players = ps,
           e_requests = [patch (ex_node ''n2'' True (1 / 2) 4)
                           (players_path (ex_node ''n2'' True (1 / 2) 4) ''g1'')
                           (track_body (Track ''B''))],
           e_emitted = []\<rparr>)
    \<and> queue_of ps ''g1'' = Some [''B'']"
proof -
  have h1: "c_queue (Config (ex_state True))"
    by (simp add: ex_state_def ex_config_def)
  have h2: "''g1'' \<noteq> []"
    by simp
  have h3: "Players (ex_state True) ''g1'' = None"
    by (simp add: ex_state_def)
  have h4: "keyed_by_hostname (Nodes (ex_state True))"
    by (simp add: ex_state_def ex_keyed)
  have h5: "getRecommendedNode (Nodes (ex_state True)) = Inr (ex_node ''n2'' True (1 / 2) 4)"
    by (simp add: ex_state_def ex_selection)
  have t0: "Player (ex_state True) ''g1'' = Inr \<lparr>this_guildId = ''g1'', this_node = None\<rparr>"
    by (simp add: Player_def ex_state_def)
  have nd: "hostname (ex_node ''n2'' True (1 / 2) 4) = ''n2''"
    by (simp add: ex_node_def)
  have rq: "requests (ex_state True) = []"
    by (simp add: ex_state_def)
  from queue_scenario [OF h1 h2 h3 h4 h5] show ?thesis
    unfolding t0 nd rq ex_payload_def by auto
qed

subsection \<open>Track end and the queue\<close>

text \<open>
  C3 (as amended). For a player that has a queue, with queueing enabled: a
  \<open>TrackEndEvent\<close> with reason \<open>replaced\<close> leaves the queue as it is; with any other
  reason (or none) it removes the head of a non-empty queue, and leaves an empty queue
  empty.
\<close>

theorem trackEnd_queue_pop:
  assumes "ps (guildId pl) = Some p" and "queue p = Some q" and "c_queue cfg"
  shows "queue_of (e_Players (snd (trackEnd pl nd cfg ns ps))) (guildId pl)
           = Some (if reason pl = Some ''replaced'' then q
                   else case q of [] \<Rightarrow> [] | x # xs \<Rightarrow> xs)"
  using assms
  by (cases q) (simp_all add: trackEnd_def finish_def queue_of_def Let_def split: option.splits)

theorem trackEnd_queue_pop_witness:
  "queue_of (e_Players (snd (trackEnd (ex_payload ''replaced'') ''n2'' (ex_config True) ex_nodes
       [''g1'' \<mapsto> ex_player [''A'', ''B'']]))) ''g1'' = Some [''A'', ''B'']
 \<and> queue_of (e_Players (snd (trackEnd (ex_payload ''finished'') ''n2'' (ex_config True) ex_nodes
       [''g1'' \<mapsto> ex_player [''A'', ''B'']]))) ''g1'' = Some [''B'']"
proof -
  have g: "guildId (ex_payload r) = ''g1''" for r
    by (simp add: ex_payload_def)
  have h1: "[''g1'' \<mapsto> ex_player [''A'', ''B'']] (guildId (ex_payload r)) = Some (ex_player [''A'', ''B''])" for r
    by (simp add: g)
  have h2: "queue (ex_player [''A'', ''B'']) = Some [''A'', ''B'']"
    by (simp add: ex_player_def)
  have h3: "c_queue (ex_config True)"
    by (simp add: ex_config_def)
  note pop = trackEnd_queue_pop [where ps = "[''g1'' \<mapsto> ex_player [''A'', ''B'']]"
      and p = "ex_player [''A'', ''B'']" and q = "[''A'', ''B'']" and cfg = "ex_config True"
      and nd = "''n2''" and ns = ex_nodes, OF _ h2 h3]
  from pop [where pl = "ex_payload ''replaced''", OF h1] pop [where pl = "ex_payload ''finished''", OF h1]
  show ?thesis
    by (simp add: g ex_payload_def)
qed

text \<open>
  The claim as stated fails on an empty queue: after a \<open>TrackEndEvent\<close> with reason
  \<open>finished\<close> the queue is as long as before, so no element was removed.
\<close>

theorem trackEnd_pops_exactly_one_counterexample:
  "queue_of [''g1'' \<mapsto> ex_player []] ''g1'' = Some []
 \<and> queue_of (e_Players (snd (trackEnd (ex_payload ''finished'') ''n2'' (ex_config True) ex_nodes
       [''g1'' \<mapsto> ex_player []]))) ''g1'' = Some []
 \<and> Suc (length (the (queue_of (e_Players (snd (trackEnd (ex_payload ''finished'') ''n2''
       (ex_config True) ex_nodes [''g1'' \<mapsto> ex_player []]))) ''g1'')))
     \<noteq> length (the (queue_of [''g1'' \<mapsto> ex_player []] ''g1''))"
  by (simp add: trackEnd_def finish_def queue_of_def ex_payload_def ex_config_def ex_player_def Let_def)

subsection \<open>The two handlers compared\<close>

text \<open>
  C4 (as amended). Unless queueing is enabled and the end reason is \<open>replaced\<close>, the
  \<open>TrackEndEvent\<close> handler and the \<open>TrackExceptionEvent\<close> handler return the same
  outcome, leave the same players and issue the same requests (one PATCH or none), for
  every registry, every node table, every payload and either queueing mode.
\<close>

theorem handlers_agree_unless_replaced:
  assumes "\<not> (c_queue cfg \<and> reason pl = Some ''replaced'')"
  shows "fst (trackEnd pl nd cfg ns ps) = fst (trackException pl nd cfg ns ps)
       \<and> e_Players (snd (trackEnd pl nd cfg ns ps)) = e_Players (snd (trackException pl nd cfg ns ps))
       \<and> e_requests (snd (trackEnd pl nd cfg ns ps)) = e_requests (snd (trackException pl nd cfg ns ps))"
  using assms
  by (auto simp add: trackEnd_def trackException_def finish_def makeNodeRequest_def Let_def
      split: option.splits)

theorem handlers_agree_unless_replaced_witness:
  "e_requests (snd (trackException (ex_payload ''finished'') ''n2'' (ex_config True) ex_nodes
       [''g1'' \<mapsto> ex_player [''A'', ''B'']]))
   = [patch (ex_node ''n2'' True (1 / 2) 4) (players_path (ex_node ''n2'' True (1 / 2) 4) ''g1'')
        (track_body (Track ''B''))]
 \<and> queue_of (e_Players (snd (trackException (ex_payload ''finished'') ''n2'' (ex_config True) ex_nodes
       [''g1'' \<mapsto> ex_player [''A'', ''B'']]))) ''g1'' = Some [''B'']"
proof -
  have h: "\<not> (c_queue (ex_config True) \<and> reason (ex_payload ''finished'') = Some ''replaced'')"
    by (simp add: ex_payload_def)
  have e: "e_requests (snd (trackEnd (ex_payload ''finished'') ''n2'' (ex_config True) ex_nodes
       [''g1'' \<mapsto> ex_player [''A'', ''B'']]))
     = [patch (ex_node ''n2'' True (1 / 2) 4) (players_path (ex_node ''n2'' True (1 / 2) 4) ''g1'')
        (track_body (Track ''B''))]"
    by (simp add: trackEnd_def ex_payload_def ex_config_def ex_player_def ex_nodes_def patch_def Let_def)
  have p: "queue_of (e_Players (snd (trackEnd (ex_payload ''finished'') ''n2'' (ex_config True) ex_nodes
       [''g1'' \<mapsto> ex_player [''A'', ''B'']]))) ''g1'' = Some [''B'']"
    by (simp add: trackEnd_def ex_payload_def ex_config_def ex_player_def ex_nodes_def queue_of_def Let_def)
  from handlers_agree_unless_replaced [OF h, of "''n2''" ex_nodes "[''g1'' \<mapsto> ex_player [''A'', ''B'']]"] e p
  show ?thesis
    by simp
qed

text \<open>
  The claim as stated fails at reason \<open>replaced\<close> with queueing enabled: on the queue
  \<open>[A, B]\<close> the \<open>TrackEndEvent\<close> handler keeps the queue and issues no request, the
  \<open>TrackExceptionEvent\<close> handler pops \<open>A\<close> and issues the PATCH for \<open>B\<close>.
\<close>

theorem handlers_identical_counterexample:
  "queue_of (e_Players (snd (trackEnd (ex_payload ''replaced'') ''n2'' (ex_config True) ex_nodes
       [''g1'' \<mapsto> ex_player [''A'', ''B'']]))) ''g1'' = Some [''A'', ''B'']
 \<and> queue_of (e_Players (snd (trackException (ex_payload ''replaced'') ''n2'' (ex_config True) ex_nodes
       [''g1'' \<mapsto> ex_player [''A'', ''B'']]))) ''g1'' = Some [''B'']
 \<and> e_requests (snd (trackEnd (ex_payload ''replaced'') ''n2'' (ex_config True) ex_nodes
       [''g1'' \<mapsto> ex_player [''A'', ''B'']])) = []
 \<and> e_requests (snd (trackException (ex_payload ''replaced'') ''n2'' (ex_config True) ex_nodes
       [''g1'' \<mapsto> ex_player [''A'', ''B'']]))
     = [patch (ex_node ''n2'' True (1 / 2) 4) (players_path (ex_node ''n2'' True (1 / 2) 4) ''g1'')
          (track_body (Track ''B''))]
 \<and> e_Players (snd (trackEnd (ex_payload ''replaced'') ''n2'' (ex_config True) ex_nodes
       [''g1'' \<mapsto> ex_player [''A'', ''B'']])) ''g1''
     \<noteq> e_Players (snd (trackException (ex_payload ''replaced'') ''n2'' (ex_config True) ex_nodes
       [''g1'' \<mapsto> ex_player [''A'', ''B'']])) ''g1''"
  by (simp add: trackEnd_def trackException_def finish_def makeNodeRequest_def queue_of_def
      ex_payload_def ex_config_def ex_player_def ex_nodes_def patch_def Let_def)


subsection \<open>Emission of the domain event\<close>

text \<open>
  C5 (as amended). For a \<open>TrackEndEvent\<close> and a \<open>TrackExceptionEvent\<close> that find a
  player for the guild (one that has a queue when queueing is enabled), the handler
  emits the domain event carrying the node, the guild key, the player as the handler
  left it and the finished track in every case but one: when the queue is non-empty
  after the pop (queueing enabled and, for \<open>TrackEndEvent\<close>, a reason other than
  \<open>replaced\<close>, with more than one element queued), the handler returns after the PATCH
  for the new head and emits no domain event.
\<close>

theorem handlers_emit_unless_advancing:
  assumes "ps (guildId pl) = Some p" and "c_queue cfg \<Longrightarrow> queue p = Some q"
  shows "e_emitted (snd (trackEnd pl nd cfg ns ps)) =
           (if c_queue cfg \<and> reason pl \<noteq> Some ''replaced'' \<and> 1 < length q then []
            else [Emit ''trackEnd''
                    \<lparr>ev_node = map_of ns nd, ev_guildId = guildId pl,
                     ev_player = the (e_Players (snd (trackEnd pl nd cfg ns ps)) (guildId pl)),
                     ev_track = pl_track pl\<rparr>])
       \<and> e_emitted (snd (trackException pl nd cfg ns ps)) =
           EmitDebug (debug_message nd) #
           (if c_queue cfg \<and> 1 < length q then []
            else [Emit ''trackException''
                    \<lparr>ev_node = map_of ns nd, ev_guildId = guildId pl,
                     ev_player = the (e_Players (snd (trackException pl nd cfg ns ps)) (guildId pl)),
                     ev_track = pl_track pl\<rparr>])"
proof (cases "c_queue cfg")
  case False
  with assms(1) show ?thesis
    by (simp add: trackEnd_def trackException_def finish_def Let_def)
next
  case True
  with assms have qq: "queue p = Some q" by simp
  show ?thesis
  proof (cases q)
    case Nil
    with True qq assms(1) show ?thesis
      by (simp add: trackEnd_def trackException_def finish_def Let_def)
  next
    case (Cons x xs)
    with True qq assms(1) show ?thesis
      by (cases xs) (simp_all add: trackEnd_def trackException_def finish_def Let_def split: option.splits)
  qed
qed

text \<open>The last track of a queue ends: the queue runs empty and the event is emitted.\<close>

theorem handlers_emit_unless_advancing_witness:
  "e_emitted (snd (trackEnd (ex_payload ''finished'') ''n2'' (ex_config True) ex_nodes
       [''g1'' \<mapsto> ex_player [''A'']]))
   = [Emit ''trackEnd''
        \<lparr>ev_node = Some (ex_node ''n2'' True (1 / 2) 4), ev_guildId = ''g1'',
         ev_player = (ex_player [])\<lparr>playing := False, volume := None\<rparr>, ev_track = ''A''\<rparr>]"
proof -
  have g: "guildId (ex_payload ''finished'') = ''g1''"
    and tr: "pl_track (ex_payload ''finished'') = ''A''"
    and rs: "reason (ex_payload ''finished'') = Some ''finished''"
    by (simp_all add: ex_payload_def)
  have h1: "[''g1'' \<mapsto> ex_player [''A'']] (guildId (ex_payload ''finished'')) = Some (ex_player [''A''])"
    by (simp add: g)
  have h2: "queue (ex_player [''A'']) = Some [''A'']"
    by (simp add: ex_player_def)
  have after: "the (e_Players (snd (trackEnd (ex_payload ''finished'') ''n2'' (ex_config True) ex_nodes
       [''g1'' \<mapsto> ex_player [''A'']])) ''g1'') = (ex_player [])\<lparr>playing := False, volume := None\<rparr>"
    by (simp add: trackEnd_def finish_def ex_payload_def ex_config_def ex_player_def Let_def)
  have "e_emitted (snd (trackEnd (ex_payload ''finished'') ''n2'' (ex_config True) ex_nodes
       [''g1'' \<mapsto> ex_player [''A'']])) =
           (if c_queue (ex_config True) \<and> reason (ex_payload ''finished'') \<noteq> Some ''replaced''
               \<and> 1 < length [''A''] then []
            else [Emit ''trackEnd''
                    \<lparr>ev_node = map_of ex_nodes ''n2'', ev_guildId = guildId (ex_payload ''finished''),
                     ev_player = the (e_Players (snd (trackEnd (ex_payload ''finished'') ''n2''
                        (ex_config True) ex_nodes [''g1'' \<mapsto> ex_player [''A'']]))
                        (guildId (ex_payload ''finished''))),
                     ev_track = pl_track (ex_payload ''finished'')\<rparr>])"
    by (rule handlers_emit_unless_advancing [where ps = "[''g1'' \<mapsto> ex_player [''A'']]"
          and pl = "ex_payload ''finished''" and cfg = "ex_config True" and nd = "''n2''"
          and ns = ex_nodes and p = "ex_player [''A'']" and q = "[''A'']",
          OF h1 h2, THEN conjunct1])
  then show ?thesis
    unfolding g tr rs after ex_lookup by simp
qed

text \<open>
  The claim as stated fails in the auto-advance case: with \<open>[A, B]\<close> queued, the
  \<open>TrackEndEvent\<close> handler issues the PATCH for \<open>B\<close> and emits nothing, and the
  \<open>TrackExceptionEvent\<close> handler emits its debug line only.
\<close>

theorem handlers_always_emit_counterexample:
  "e_emitted (snd (trackEnd (ex_payload ''finished'') ''n2'' (ex_config True) ex_nodes
       [''g1'' \<mapsto> ex_player [''A'', ''B'']])) = []
 \<and> e_requests (snd (trackEnd (ex_payload ''finished'') ''n2'' (ex_config True) ex_nodes
       [''g1'' \<mapsto> ex_player [''A'', ''B'']]))
     = [patch (ex_node ''n2'' True (1 / 2) 4) (players_path (ex_node ''n2'' True (1 / 2) 4) ''g1'')
          (track_body (Track ''B''))]
 \<and> e_emitted (snd (trackException (ex_payload ''finished'') ''n2'' (ex_config True) ex_nodes
       [''g1'' \<mapsto> ex_player [''A'', ''B'']])) = [EmitDebug (debug_message ''n2'')]"
  by (simp add: trackEnd_def trackException_def ex_payload_def ex_config_def ex_player_def
      ex_lookup patch_def makeNodeRequest_def Let_def)

subsection \<open>Destroying a player\<close>

text \<open>\<open>destroy\<close> never touches the player registry, whether it succeeds or throws.\<close>

lemma destroy_keeps_Players: "Players (snd (destroy s t)) = Players s"
  by (simp add: destroy_def makeRequest_def Let_def split: option.splits)

text \<open>
  C6, at the failing input. On the concrete registry, with queueing disabled, a player
  is created for guild \<open>g1\<close> and destroyed. \<open>destroy\<close> succeeds and issues the DELETE,
  but the player is still in the registry afterwards, so that \<open>createPlayer\<close> on the
  same key fails with \<open>PlayerAlreadyExists\<close>.
\<close>

theorem destroy_then_createPlayer_fails:
  "fst (ex_created False) = Inr ()
 \<and> fst (ex_destroyed False) = Inr ()
 \<and> map r_method (requests (snd (ex_destroyed False))) = [DELETE]
 \<and> Players (snd (ex_destroyed False)) ''g1'' = Players (fst (snd (ex_created False))) ''g1''
 \<and> Players (snd (ex_destroyed False)) ''g1'' \<noteq> None
 \<and> fst (createPlayer (snd (ex_destroyed False)) (snd (snd (ex_created False)))) = Inl PlayerAlreadyExists"
proof -
  have slots: "n_players (ex_node ''n2'' True (1 / 2) 4) = Some Map.empty"
    by (simp add: ex_node_def)
  note ev = ex_destroyed_def ex_created_eq destroy_def makeRequest_def Nodes_at_def
    ex_state_def ex_lookup slots map_of_Nodes_put Let_def
  have d1: "fst (ex_destroyed False) = Inr ()"
    by (simp add: ev)
  have d2: "map r_method (requests (snd (ex_destroyed False))) = [DELETE]"
    by (simp add: ev)
  have d3: "Players (snd (ex_destroyed False)) = Players (fst (snd (ex_created False)))"
    by (simp add: ev)
  from d1 d2 d3 show ?thesis
    by (simp add: ex_created_eq createPlayer_def)
qed

subsection \<open>The single-track scenario\<close>

text \<open>
  A \<open>TrackEndEvent\<close> with queueing disabled sets \<open>track\<close> to \<open>null\<close>, \<open>playing\<close> to
  \<open>false\<close> and \<open>volume\<close> to \<open>null\<close>, whatever they were.
\<close>

lemma trackEnd_single_track:
  assumes "ps (guildId pl) = Some p" and "\<not> c_queue cfg"
  shows "e_Players (snd (trackEnd pl nd cfg ns ps))
           = ps(guildId pl \<mapsto> p\<lparr>track := Null, playing := False, volume := None\<rparr>)"
  using assms by (simp add: trackEnd_def finish_def Let_def)




subsection \<open>Skipping\<close>

text \<open>
  C8. With queueing disabled \<open>skipTrack\<close> fails with \<open>QueueDisabled\<close>. With queueing
  enabled, on a player whose queue is empty it returns \<open>skipped = false\<close> and leaves
  the state as it was, so that no request is issued; on a player whose queue is
  \<open>x # xs\<close> (and whose node is registered) it returns \<open>skipped = true\<close>, leaves the
  queue \<open>xs\<close>, and adds exactly one request, the PATCH carrying the new head.
\<close>

theorem skipTrack_cases:
  "(\<not> c_queue (Config s) \<longrightarrow> skipTrack s t = (Inl QueueDisabled, s))
 \<and> (c_queue (Config s) \<and> Players s (this_guildId t) = Some p \<and> queue p = Some []
      \<longrightarrow> skipTrack s t
          = (Inr \<lparr>skipped = False, sk_queue = [], sk_error = Some ''No tracks in queue.''\<rparr>, s))
 \<and> (c_queue (Config s) \<and> Players s (this_guildId t) = Some p \<and> queue p = Some (x # xs)
      \<and> Nodes_at (Nodes s) (this_node t) = Some n
      \<longrightarrow> skipTrack s t
          = (Inr \<lparr>skipped = True, sk_queue = xs, sk_error = None\<rparr>,
             s\<lparr>Players := (Players s)(this_guildId t \<mapsto> p\<lparr>queue := Some xs\<rparr>),
               requests := requests s @ [patch n (players_path n (this_guildId t)) (track_body (first xs))]\<rparr>))"
  by (simp add: skipTrack_def makeRequest_def patch_def Let_def)

text \<open>The three cases on the concrete registry.\<close>

theorem skipTrack_cases_witness:
  "skipTrack (ex_state False) \<lparr>this_guildId = ''g1'', this_node = Some ''n2''\<rparr>
     = (Inl QueueDisabled, ex_state False)
 \<and> skipTrack (ex_playing []) \<lparr>this_guildId = ''g1'', this_node = Some ''n2''\<rparr>
     = (Inr \<lparr>skipped = False, sk_queue = [], sk_error = Some ''No tracks in queue.''\<rparr>, ex_playing [])
 \<and> fst (skipTrack (ex_playing [''A'', ''B'']) \<lparr>this_guildId = ''g1'', this_node = Some ''n2''\<rparr>)
     = Inr \<lparr>skipped = True, sk_queue = [''B''], sk_error = None\<rparr>
 \<and> requests (snd (skipTrack (ex_playing [''A'', ''B'']) \<lparr>this_guildId = ''g1'', this_node = Some ''n2''\<rparr>))
     = [patch (ex_node ''n2'' True (1 / 2) 4) (players_path (ex_node ''n2'' True (1 / 2) 4) ''g1'')
          (track_body (Track ''B''))]
 \<and> queue_of (Players (snd (skipTrack (ex_playing [''A'', ''B''])
       \<lparr>this_guildId = ''g1'', this_node = Some ''n2''\<rparr>))) ''g1'' = Some [''B'']"
proof -
  let ?t = "\<lparr>this_guildId = ''g1'', this_node = Some ''n2''\<rparr>"
  have off: "\<not> c_queue (Config (ex_state False))"
    by (simp add: ex_state_def ex_config_def)
  have on: "c_queue (Config (ex_playing q))" for q
    by (simp add: ex_playing_simps ex_config_def)
  have pl: "Players (ex_playing q) (this_guildId ?t) = Some (ex_player q)" for q
    by (simp add: ex_playing_simps)
  have qu: "queue (ex_player q) = Some q" for q
    by (simp add: ex_player_def)
  have nd: "Nodes_at (Nodes (ex_playing q)) (this_node ?t) = Some (ex_node ''n2'' True (1 / 2) 4)" for q
    by (simp add: ex_playing_simps Nodes_at_def ex_lookup)
  from skipTrack_cases [where s = "ex_state False" and t = ?t] off
  have a: "skipTrack (ex_state False) ?t = (Inl QueueDisabled, ex_state False)"
    by blast
  from skipTrack_cases [where s = "ex_playing []" and t = ?t and p = "ex_player []"] on pl qu
  have b: "skipTrack (ex_playing []) ?t
     = (Inr \<lparr>skipped = False, sk_queue = [], sk_error = Some ''No tracks in queue.''\<rparr>, ex_playing [])"
    by blast
  from skipTrack_cases [where s = "ex_playing [''A'', ''B'']" and t = ?t
      and p = "ex_player [''A'', ''B'']" and x = "''A''" and xs = "[''B'']"
      and n = "ex_node ''n2'' True (1 / 2) 4"] on pl qu nd
  have c: "skipTrack (ex_playing [''A'', ''B'']) ?t
     = (Inr \<lparr>skipped = True, sk_queue = [''B''], sk_error = None\<rparr>,
        (ex_playing [''A'', ''B''])\<lparr>Players := (Players (ex_playing [''A'', ''B'']))
             (this_guildId ?t \<mapsto> (ex_player [''A'', ''B''])\<lparr>queue := Some [''B'']\<rparr>),
           requests := requests (ex_playing [''A'', ''B'']) @
             [patch (ex_node ''n2'' True (1 / 2) 4)
                (players_path (ex_node ''n2'' True (1 / 2) 4) (this_guildId ?t))
                (track_body (first [''B'']))]\<rparr>)"
    by blast
  show ?thesis
    unfolding a b c by (simp add: ex_playing_simps queue_of_def)
qed

subsection \<open>Voice correlation\<close>

text \<open>
  C9. A voice-server notification for a guild without a pending session entry returns
  normally and leaves the state as it was. A voice-state notification for the bot's
  own identity (with a non-empty session id) followed by a voice-server notification,
  for a guild that has a player on a registered node: the pending entry is stored,
  then \<open>update\<close> is called on the guild's player with the body
  \<open>{voice: {token, endpoint, sessionId}}\<close>, which adds exactly the PATCH carrying that
  body, and the pending entry is deleted. Two voice-state notifications in a row both
  return normally, and the pending entry is the session id of the second.
\<close>

theorem handleRaw_voice_correlation:
  "(sessionIds s g = None \<longrightarrow> handleRaw s (voice_server g tok ep) = (Inr (), s))
 \<and> (sid \<noteq> [] \<and> g \<noteq> [] \<and> Players s g = Some p \<and> map_of (Nodes s) (p_node p) = Some n
      \<longrightarrow> (\<exists>s1 s2. handleRaw s (voice_state g sid (c_botId (Config s))) = (Inr (), s1)
             \<and> sessionIds s1 g = Some sid
             \<and> handleRaw s1 (voice_server g tok ep) = (Inr (), s2)
             \<and> s2 = (snd (update s1 \<lparr>this_guildId = g, this_node = Some (p_node p)\<rparr>
                              (voice_body tok ep sid) None))\<lparr>sessionIds := (sessionIds s1)(g := None)\<rparr>
             \<and> requests s2 = requests s @ [patch n (players_path n g @ ''?noReplace=false'') (voice_body tok ep sid)]
             \<and> Players s2 = Players s
             \<and> sessionIds s2 g = None))
 \<and> (\<exists>s1 s2. handleRaw s (voice_state g sid (c_botId (Config s))) = (Inr (), s1)
             \<and> handleRaw s1 (voice_state g sid' (c_botId (Config s))) = (Inr (), s2)
             \<and> sessionIds s2 g = Some sid')"
  by (simp add: handleRaw_def voice_state_def voice_server_def voice_body_def Player_def
      playerCreated_def update_def update_encodedTrack_def update_paused_def makeRequest_def
      Nodes_at_def no_body_def patch_def Let_def)

text \<open>The three parts on the concrete registry, for the player of guild \<open>g1\<close>.\<close>

theorem handleRaw_voice_correlation_witness:
  "handleRaw (ex_playing [''A'']) (voice_server ''g1'' ''tok'' ''ep'') = (Inr (), ex_playing [''A''])
 \<and> (\<exists>s1 s2. handleRaw (ex_playing [''A'']) (voice_state ''g1'' ''vs1'' ''bot'') = (Inr (), s1)
        \<and> handleRaw s1 (voice_server ''g1'' ''tok'' ''ep'') = (Inr (), s2)
        \<and> requests s2 = [patch (ex_node ''n2'' True (1 / 2) 4)
                            (players_path (ex_node ''n2'' True (1 / 2) 4) ''g1'' @ ''?noReplace=false'')
                            (voice_body ''tok'' ''ep'' ''vs1'')]
        \<and> sessionIds s2 ''g1'' = None)
 \<and> (\<exists>s1 s2. handleRaw (ex_playing [''A'']) (voice_state ''g1'' ''vs1'' ''bot'') = (Inr (), s1)
        \<and> handleRaw s1 (voice_state ''g1'' ''vs2'' ''bot'') = (Inr (), s2)
        \<and> sessionIds s2 ''g1'' = Some ''vs2'')"
proof -
  have none: "sessionIds (ex_playing [''A'']) ''g1'' = None"
    by (simp add: ex_playing_simps)
  have sid: "''vs1'' \<noteq> []" and g: "''g1'' \<noteq> []"
    by simp_all
  have pl: "Players (ex_playing [''A'']) ''g1'' = Some (ex_player [''A''])"
    by (simp add: ex_playing_simps)
  have nd: "map_of (Nodes (ex_playing [''A''])) (p_node (ex_player [''A'']))
              = Some (ex_node ''n2'' True (1 / 2) 4)"
    by (simp add: ex_playing_simps ex_player_def ex_lookup)
  have bot: "c_botId (Config (ex_playing [''A''])) = ''bot''"
    by (simp add: ex_playing_simps ex_config_def)
  have rq: "requests (ex_playing [''A'']) = []"
    by (simp add: ex_playing_simps)
  from handleRaw_voice_correlation [where s = "ex_playing [''A'']" and g = "''g1''"
      and tok = "''tok''" and ep = "''ep''" and sid = "''vs1''" and sid' = "''vs2''"
      and p = "ex_player [''A'']" and n = "ex_node ''n2'' True (1 / 2) 4"]
    none sid g pl nd
  show ?thesis
    unfolding bot rq by (simp only: append_Nil simp_thms) blast
qed

text \<open>
  C10. A voice-server notification for a guild that has a pending session entry (a
  non-empty session id) but no player leaves the state as it was: \<open>update\<close> is not
  called, no request is issued, and the pending entry is still there. The call returns
  normally, unless the guild id is the empty string, which the \<open>Player\<close> constructor
  rejects.
\<close>

theorem handleRaw_server_without_player:
  assumes "sessionIds s g = Some sid" and "sid \<noteq> []" and "Players s g = None"
  shows "handleRaw s (voice_server g tok ep) = (if g = [] then Inl NoGuildId else Inr (), s)
       \<and> sessionIds (snd (handleRaw s (voice_server g tok ep))) g = Some sid
       \<and> requests (snd (handleRaw s (voice_server g tok ep))) = requests s"
  using assms
  by (auto simp add: handleRaw_def voice_server_def Player_def playerCreated_def)

text \<open>A pending entry for guild \<open>g1\<close> on the concrete registry, which has no player.\<close>

theorem handleRaw_server_without_player_witness:
  "handleRaw ((ex_state True)\<lparr>sessionIds := [''g1'' \<mapsto> ''vs1'']\<rparr>) (voice_server ''g1'' ''tok'' ''ep'')
     = (Inr (), (ex_state True)\<lparr>sessionIds := [''g1'' \<mapsto> ''vs1'']\<rparr>)"
proof -
  let ?s = "(ex_state True)\<lparr>sessionIds := [''g1'' \<mapsto> ''vs1'']\<rparr>"
  have h1: "sessionIds ?s ''g1'' = Some ''vs1''"
    by simp
  have h2: "''vs1'' \<noteq> []"
    by simp
  have h3: "Players ?s ''g1'' = None"
    by (simp add: ex_state_def)
  from handleRaw_server_without_player [OF h1 h2 h3, of "''tok''" "''ep''"]
  show ?thesis
    by simp
qed


end
